theory Spec2Isabelle
  imports Complex_Main "HOL-Library.Word" "HOL-Library.AList"
begin

text \<open>
  A model of \<open>server.js\<close>, a chat relay on express, socket.io and multer: the registry
  \<open>users\<close> of display names, the handlers of the events \<open>connection\<close>,
  \<open>set username\<close>, \<open>chat message\<close> and \<open>disconnect\<close>, and the upload route.
  A handler is a function from the state of the server and the event to the new state
  and the list of emissions it made; the libraries appear through what the source relies
  on: which connections are live, whom an emission reaches, what a request carries.
\<close>

section \<open>JavaScript values as server.js handles them\<close>

text \<open>
  A JavaScript string is a sequence of UTF-16 code units. \<open>lit\<close> embeds an ASCII
  literal of the source text.
\<close>

type_synonym code_unit = "16 word"
type_synonym jstring = "code_unit list"

definition lit :: "string \<Rightarrow> jstring" where
  "lit s = map (\<lambda>c. of_char c) s"

text \<open>
  The values a socket.io event can carry: what \<open>JSON.parse\<close> produces, and
  \<open>undefined\<close> for an argument that was not sent. JSON numbers are finite, so a
  rational stands for each; an object is the list of its own properties in insertion order.
  \<open>JNative k\<close> is no value of a client: it is the function or object that every plain
  object inherits from \<open>Object.prototype\<close> under the name \<open>k\<close>, which the server
  reads when it indexes \<open>users\<close> with such a name (line 50).
\<close>

datatype jsval =
    JUndefined
  | JNull
  | JBool bool
  | JNum rat
  | JStr jstring
  | JArr "jsval list"
  | JObj "(jstring \<times> jsval) list"
  | JNative jstring

datatype js_error = TypeError

text \<open>ToBoolean: what \<open>x && y\<close>, \<open>x || y\<close>, \<open>!x\<close> and \<open>if (x)\<close> test.\<close>

fun truthy :: "jsval \<Rightarrow> bool" where
  "truthy JUndefined = False"
| "truthy JNull = False"
| "truthy (JBool b) = b"
| "truthy (JNum r) = (r \<noteq> 0)"
| "truthy (JStr s) = (s \<noteq> [])"
| "truthy (JArr xs) = True"
| "truthy (JObj fs) = True"
| "truthy (JNative k) = True"

definition js_or :: "jsval \<Rightarrow> jsval \<Rightarrow> jsval" where
  "js_or a b = (if truthy a then a else b)"

fun is_string :: "jsval \<Rightarrow> bool" where
  "is_string (JStr s) = True"
| "is_string v = False"

text \<open>
  \<open>data.message\<close>, \<open>data.recipientId\<close>, \<open>data.type\<close>: reading a property of
  \<open>null\<close> or \<open>undefined\<close> throws; an object gives its own property or \<open>undefined\<close>;
  no prototype of the other values has a property of one of these three names.
\<close>

fun get_prop :: "jsval \<Rightarrow> jstring \<Rightarrow> js_error + jsval" where
  "get_prop JUndefined k = Inl TypeError"
| "get_prop JNull k = Inl TypeError"
| "get_prop (JObj fs) k = Inr (case map_of fs k of None \<Rightarrow> JUndefined | Some v \<Rightarrow> v)"
| "get_prop v k = Inr JUndefined"

text \<open>
  \<open>String.prototype.trim\<close> removes the leading and trailing WhiteSpace and
  LineTerminator code units of ECMAScript.
\<close>

definition is_ws :: "code_unit \<Rightarrow> bool" where
  "is_ws c = (c \<in> set [0x9, 0xA, 0xB, 0xC, 0xD, 0x20, 0xA0, 0x1680, 0x2028, 0x2029,
                        0x202F, 0x205F, 0x3000, 0xFEFF]
              \<or> (0x2000 \<le> c \<and> c \<le> 0x200A))"

definition trim :: "jstring \<Rightarrow> jstring" where
  "trim s = rev (dropWhile is_ws (rev (dropWhile is_ws s)))"

text \<open>
  \<open>username.trim()\<close> on a value that passed the truthiness test: only a string has
  the method; on any other value \<open>username.trim\<close> is not a function and the call
  throws.
\<close>

fun call_trim :: "jsval \<Rightarrow> js_error + jstring" where
  "call_trim (JStr s) = Inr (trim s)"
| "call_trim v = Inl TypeError"

text \<open>Decimal digits of a non-negative integer, as a template literal prints \<open>Date.now()\<close>.\<close>

definition digit :: "nat \<Rightarrow> code_unit" where
  "digit d = of_nat (48 + d)"

function digits :: "nat \<Rightarrow> jstring" where
  "digits n = (if n < 10 then [digit n] else digits (n div 10) @ [digit (n mod 10)])"
  by pat_completeness auto
termination
  by (relation "measure (\<lambda>n. n)") auto

declare digits.simps [simp del]

section \<open>Server state and emissions\<close>

type_synonym conn_id = jstring

text \<open>
  \<open>sockets\<close> is \<open>io.sockets.sockets\<close>, the identifiers of the live connections in the
  order they connected. \<open>users\<close> is the object \<open>users\<close> of line 75: its own properties
  in insertion order (an identifier of the transport is never an array index, nor the
  name of a property of \<open>Object.prototype\<close>).
\<close>

record server =
  sockets :: "conn_id list"
  users :: "(conn_id \<times> jstring) list"

definition init :: server where
  "init = \<lparr>sockets = [], users = []\<rparr>"

datatype event =
    YourId conn_id
  | UserList "(conn_id \<times> jstring) list"
  | UserNotification jstring
  | ChatMessage jsval

text \<open>An emission: the connections the event is delivered to, and the event.\<close>

type_synonym emission = "conn_id list \<times> event"

definition io_emit :: "server \<Rightarrow> event \<Rightarrow> emission" where
  "io_emit s ev = (sockets s, ev)"

text \<open>
  \<open>io.to(room)\<close>: every socket is alone in the room named by its identifier, and the
  source joins no other room.
\<close>

definition io_to_emit :: "server \<Rightarrow> jsval \<Rightarrow> event \<Rightarrow> emission" where
  "io_to_emit s room ev =
     (case room of JStr r \<Rightarrow> (filter (\<lambda>c. c = r) (sockets s), ev) | _ \<Rightarrow> ([], ev))"

definition socket_emit :: "conn_id \<Rightarrow> event \<Rightarrow> emission" where
  "socket_emit sid ev = ([sid], ev)"

definition socket_broadcast_emit :: "server \<Rightarrow> conn_id \<Rightarrow> event \<Rightarrow> emission" where
  "socket_broadcast_emit s sid ev = (filter (\<lambda>c. c \<noteq> sid) (sockets s), ev)"

text \<open>\<open>io.sockets.sockets.get(x)\<close>: the keys of the Map are strings.\<close>

definition sockets_get :: "server \<Rightarrow> jsval \<Rightarrow> bool" where
  "sockets_get s v = (case v of JStr r \<Rightarrow> r \<in> set (sockets s) | _ \<Rightarrow> False)"

text \<open>\<open>users[socket.id]\<close>: the key is an identifier of the transport.\<close>

definition users_get :: "server \<Rightarrow> conn_id \<Rightarrow> jsval" where
  "users_get s k = (case map_of (users s) k of None \<Rightarrow> JUndefined | Some n \<Rightarrow> JStr n)"

text \<open>
  \<open>users[key]\<close> for a key a client chose (the \<open>senderId\<close> field of an upload): an own
  property first, then what the object literal of line 75 inherits from
  \<open>Object.prototype\<close>.
\<close>

definition object_prototype_names :: "jstring list" where
  "object_prototype_names =
     map lit [''constructor'', ''__proto__'', ''hasOwnProperty'', ''isPrototypeOf'',
              ''propertyIsEnumerable'', ''toLocaleString'', ''toString'', ''valueOf'',
              ''__defineGetter__'', ''__defineSetter__'', ''__lookupGetter__'',
              ''__lookupSetter__'']"

definition users_prop :: "server \<Rightarrow> jstring \<Rightarrow> jsval" where
  "users_prop s k =
     (case map_of (users s) k of
        Some n \<Rightarrow> JStr n
      | None \<Rightarrow> if k \<in> set object_prototype_names then JNative k else JUndefined)"

text \<open>\<open>Object.entries(users).map(([id, name]) => ({ id, name }))\<close>, as pairs.\<close>

definition user_list :: "server \<Rightarrow> event" where
  "user_list s = UserList (users s)"

text \<open>
  What a handler did: the state it left, the emissions it made in order, and the
  error it threw, if any.
\<close>

type_synonym outcome = "server \<times> emission list \<times> js_error option"

section \<open>The socket handlers (lines 77 to 150)\<close>

definition Anonymous :: jstring where
  "Anonymous = lit ''Anonymous''"

definition connection_handler :: "server \<Rightarrow> conn_id \<Rightarrow> outcome" where
  "connection_handler s sid = (s, [socket_emit sid (YourId sid)], None)"

text \<open>Line 85: \<open>username && username.trim() ? username.trim() : "Anonymous"\<close>.\<close>

definition assign_name :: "jsval \<Rightarrow> js_error + jstring" where
  "assign_name v =
     (if \<not> truthy v then Inr Anonymous
      else case call_trim v of
             Inl e \<Rightarrow> Inl e
           | Inr t \<Rightarrow> if truthy (JStr t) then call_trim v else Inr Anonymous)"

definition set_username :: "server \<Rightarrow> conn_id \<Rightarrow> jsval \<Rightarrow> outcome" where
  "set_username s sid v =
     (case assign_name v of
        Inl e \<Rightarrow> (s, [], Some e)
      | Inr assigned \<Rightarrow>
          let s' = s\<lparr>users := AList.update sid assigned (users s)\<rparr>
          in (s',
              [io_emit s' (user_list s'),
               socket_broadcast_emit s' sid
                 (UserNotification (assigned @ lit '' joined the chat''))],
              None))"

text \<open>The six properties of the object literals of lines 104 to 111 and 119 to 126.\<close>

definition chat_payload ::
  "jsval \<Rightarrow> jsval \<Rightarrow> jsval \<Rightarrow> conn_id \<Rightarrow> jsval \<Rightarrow> nat \<Rightarrow> jsval" where
  "chat_payload uname message ty sid recipient now =
     JObj [(lit ''username'', uname),
           (lit ''message'', message),
           (lit ''type'', ty),
           (lit ''senderId'', JStr sid),
           (lit ''recipientId'', recipient),
           (lit ''timestamp'', JNum (of_nat now))]"

definition chat_message :: "server \<Rightarrow> conn_id \<Rightarrow> nat \<Rightarrow> jsval \<Rightarrow> outcome" where
  "chat_message s sid now data =
     (let uname = js_or (users_get s sid) (JStr Anonymous) in
      if is_string data then
        (s, [io_emit s (ChatMessage
                 (chat_payload uname data (JStr (lit ''text'')) sid JNull now))], None)
      else
        (case get_prop data (lit ''message'') of
           Inl e \<Rightarrow> (s, [], Some e)
         | Inr message \<Rightarrow>
            (case get_prop data (lit ''recipientId'') of
               Inl e \<Rightarrow> (s, [], Some e)
             | Inr rid \<Rightarrow>
                (case get_prop data (lit ''type'') of
                   Inl e \<Rightarrow> (s, [], Some e)
                 | Inr ty \<Rightarrow>
                    (let recipientId = js_or rid JNull;
                         payload = chat_payload uname message
                                     (js_or ty (JStr (lit ''text''))) sid recipientId now
                     in if truthy recipientId \<and> sockets_get s recipientId then
                          (s, [io_to_emit s recipientId (ChatMessage payload),
                               socket_emit sid (ChatMessage payload)], None)
                        else
                          (s, [io_emit s (ChatMessage payload)], None))))))"

text \<open>
  The disconnect handler runs when the transport has already taken the socket out of
  \<open>io.sockets.sockets\<close>; \<open>s\<close> is the state after that.
\<close>

definition disconnect_handler :: "server \<Rightarrow> conn_id \<Rightarrow> outcome" where
  "disconnect_handler s sid =
     (let uname = users_get s sid;
          s' = s\<lparr>users := AList.delete sid (users s)\<rparr>
      in (s',
          io_emit s' (user_list s') #
          (case uname of
             JStr n \<Rightarrow> if truthy uname
                       then [io_emit s' (UserNotification (n @ lit '' left the chat''))]
                       else []
           | _ \<Rightarrow> []),
          None))"

section \<open>The upload route (lines 18 to 73)\<close>

text \<open>
  The character class of the regular expression \<open>/[^a-zA-Z0-9._-]/g\<close>: ranges and
  single code units; the class is negated.
\<close>

datatype class_item = Range code_unit code_unit | Single code_unit

fun in_item :: "code_unit \<Rightarrow> class_item \<Rightarrow> bool" where
  "in_item c (Range lo hi) = (lo \<le> c \<and> c \<le> hi)"
| "in_item c (Single d) = (c = d)"

definition matches_negated :: "class_item list \<Rightarrow> code_unit \<Rightarrow> bool" where
  "matches_negated items c = (\<not> list_ex (in_item c) items)"

text \<open>\<open>s.replace(/[^...]/g, rep)\<close>: every code unit the class matches becomes \<open>rep\<close>.\<close>

definition replace_negated :: "class_item list \<Rightarrow> jstring \<Rightarrow> jstring \<Rightarrow> jstring" where
  "replace_negated items rep s =
     concat (map (\<lambda>c. if matches_negated items c then rep else [c]) s)"

definition cu :: "char \<Rightarrow> code_unit" where
  "cu c = of_char c"

definition name_class :: "class_item list" where
  "name_class = [Range (cu CHR ''a'') (cu CHR ''z''), Range (cu CHR ''A'') (cu CHR ''Z''),
                 Range (cu CHR ''0'') (cu CHR ''9''),
                 Single (cu CHR ''.''), Single (cu CHR ''_''), Single (cu CHR ''-'')]"

definition safeName :: "jstring \<Rightarrow> jstring" where
  "safeName originalname = replace_negated name_class (lit ''_'') originalname"

text \<open>The \<open>filename\<close> callback of the disk storage; \<open>now\<close> is what \<open>Date.now()\<close> reads.\<close>

definition storage_filename :: "nat \<Rightarrow> jstring \<Rightarrow> jstring" where
  "storage_filename now originalname = digits now @ lit ''-'' @ safeName originalname"

definition fileSize :: nat where
  "fileSize = 20 * 1024 * 1024"

text \<open>
  \<open>req.file\<close> and \<open>req.body\<close> as the handler reads them. A form field, sent once
  or not at all, is a string or missing. \<open>req.body\<close> is \<open>undefined\<close> when the
  middleware parsed no multipart body.
\<close>

record upfile =
  filename :: jstring
  originalname :: jstring

record form =
  senderId :: "jstring option"
  recipientId :: "jstring option"
  username :: "jstring option"
  type_field :: "jstring option"

record request =
  req_file :: "upfile option"
  req_body :: "form option"

fun field :: "jstring option \<Rightarrow> jsval" where
  "field None = JUndefined"
| "field (Some v) = JStr v"

datatype response_body = ErrorBody jstring | OkBody jstring

text \<open>Status code and JSON body; \<open>OkBody u\<close> is \<open>{ ok: true, fileUrl: u }\<close>.\<close>

type_synonym response = "nat \<times> response_body"

text \<open>
  Line 50: \<open>username || (senderId && users[senderId] ? users[senderId] : "Anonymous")
  || "Anonymous"\<close>.
\<close>

definition upload_username :: "server \<Rightarrow> form \<Rightarrow> jsval" where
  "upload_username s b =
     js_or (js_or (field (username b))
              (case senderId b of
                 None \<Rightarrow> JStr Anonymous
               | Some sid \<Rightarrow>
                   if truthy (JStr sid) \<and> truthy (users_prop s sid)
                   then users_prop s sid else JStr Anonymous))
           (JStr Anonymous)"

definition upload_payload :: "server \<Rightarrow> nat \<Rightarrow> upfile \<Rightarrow> form \<Rightarrow> jsval" where
  "upload_payload s now f b =
     JObj [(lit ''username'', upload_username s b),
           (lit ''message'', JStr (lit ''/uploads/'' @ filename f)),
           (lit ''type'', js_or (field (type_field b)) (JStr (lit ''file''))),
           (lit ''originalName'', JStr (originalname f)),
           (lit ''senderId'', field (senderId b)),
           (lit ''recipientId'', js_or (field (recipientId b)) JNull),
           (lit ''timestamp'', JNum (of_nat now))]"

text \<open>
  The body of the \<open>try\<close>: the emissions made, and the response or the error thrown.
  Destructuring \<open>req.body\<close> (line 42) throws when it is \<open>undefined\<close>.
\<close>

definition upload_try ::
  "server \<Rightarrow> nat \<Rightarrow> request \<Rightarrow> emission list \<times> (js_error + response)" where
  "upload_try s now req =
     (case req_body req of
        None \<Rightarrow> ([], Inl TypeError)
      | Some b \<Rightarrow>
         (case req_file req of
            None \<Rightarrow> ([], Inr (400, ErrorBody (lit ''No file uploaded.'')))
          | Some f \<Rightarrow>
             (let fileUrl = lit ''/uploads/'' @ filename f;
                  payload = upload_payload s now f b
              in (if truthy (field (recipientId b)) \<and> sockets_get s (field (recipientId b))
                  then io_to_emit s (field (recipientId b)) (ChatMessage payload) #
                       (if truthy (field (senderId b))
                        then [io_to_emit s (field (senderId b)) (ChatMessage payload)]
                        else [])
                  else [io_emit s (ChatMessage payload)],
                  Inr (200, OkBody fileUrl)))))"

text \<open>The \<open>catch\<close> turns a thrown error into the 500 response.\<close>

definition upload_handler ::
  "server \<Rightarrow> nat \<Rightarrow> request \<Rightarrow> emission list \<times> response" where
  "upload_handler s now req =
     (case upload_try s now req of
        (es, Inl e) \<Rightarrow> (es, (500, ErrorBody (lit ''Upload failed.'')))
      | (es, Inr r) \<Rightarrow> (es, r))"

text \<open>
  \<open>upload.single("file")\<close> in front of the handler: the middleware of the upload
  library, configured by lines 19 to 32. It is not code of \<open>server.js\<close>; the model
  keeps of it what the route depends on.
  \<^item> A request that is not multipart passes untouched: no file, no body.
  \<^item> A file part that reaches the size limit ends the request with the library's
    error, and the handler does not run. (The library's current releases refuse a file
    of exactly the limit, older ones only a larger one; nothing below depends on
    the case of equality.)
  \<^item> A stored file gets its name from \<open>storage_filename\<close> at the time \<open>t\<close> of
    storing. \<open>part_name\<close> is the name the library hands to the callback as
    \<open>file.originalname\<close> (in its current releases, the base name of the name sent).
  \<^item> Any other error of the middleware (a file under another field name, a write to
    the disk that fails) ends the request in the same way. Which requests meet one is
    not decided by the source, so such a request is given with its error:
    \<open>Aborted e\<close>.
\<close>

record part =
  part_name :: jstring
  part_size :: nat

datatype multer_error = LIMIT_FILE_SIZE | LIMIT_UNEXPECTED_FILE | StorageError

datatype incoming = NotMultipart | Multipart "part option" form | Aborted multer_error

fun upload_single :: "nat \<Rightarrow> incoming \<Rightarrow> multer_error + request" where
  "upload_single t NotMultipart = Inr \<lparr>req_file = None, req_body = None\<rparr>"
| "upload_single t (Multipart None b) = Inr \<lparr>req_file = None, req_body = Some b\<rparr>"
| "upload_single t (Multipart (Some p) b) =
     (if fileSize \<le> part_size p then Inl LIMIT_FILE_SIZE
      else Inr \<lparr>req_file = Some \<lparr>filename = storage_filename t (part_name p),
                                  originalname = part_name p\<rparr>,
                 req_body = Some b\<rparr>)"
| "upload_single t (Aborted e) = Inl e"

text \<open>
  The route: an error of the middleware goes past the handler and its \<open>catch\<close> to the
  framework, which answers it; otherwise the handler answers.
\<close>

definition post_upload ::
  "server \<Rightarrow> nat \<Rightarrow> nat \<Rightarrow> incoming \<Rightarrow> multer_error + emission list \<times> response" where
  "post_upload s t now inc =
     (case upload_single t inc of
        Inl e \<Rightarrow> Inl e
      | Inr req \<Rightarrow> Inr (upload_handler s now req))"


section \<open>One event at a time\<close>

datatype input =
    Connection conn_id
  | SetUsername conn_id jsval
  | ChatMsg conn_id nat jsval
  | Disconnect conn_id
  | Upload nat request

text \<open>
  The transport adds a socket before the connection handler runs and removes it before
  the disconnect handler runs; it gives each connection an identifier no live connection
  has, and delivers events of live connections only.
\<close>

fun step :: "server \<Rightarrow> input \<Rightarrow> outcome" where
  "step s (Connection sid) =
     (if sid \<in> set (sockets s) then (s, [], None)
      else connection_handler (s\<lparr>sockets := sockets s @ [sid]\<rparr>) sid)"
| "step s (SetUsername sid v) =
     (if sid \<in> set (sockets s) then set_username s sid v else (s, [], None))"
| "step s (ChatMsg sid now data) =
     (if sid \<in> set (sockets s) then chat_message s sid now data else (s, [], None))"
| "step s (Disconnect sid) =
     (if sid \<in> set (sockets s)
      then disconnect_handler (s\<lparr>sockets := removeAll sid (sockets s)\<rparr>) sid
      else (s, [], None))"
| "step s (Upload now req) = (s, fst (upload_handler s now req), None)"

text \<open>A run stops at the first error no handler catches.\<close>

fun run :: "server \<Rightarrow> input list \<Rightarrow> outcome" where
  "run s [] = (s, [], None)"
| "run s (e # es) =
     (case step s e of
        (s', out, Some err) \<Rightarrow> (s', out, Some err)
      | (s', out, None) \<Rightarrow>
          (case run s' es of (s'', out', r) \<Rightarrow> (s'', out @ out', r)))"

text \<open>The events a connection receives from a list of emissions, in order.\<close>

fun received :: "conn_id \<Rightarrow> emission list \<Rightarrow> event list" where
  "received c [] = []"
| "received c ((rs, ev) # es) = replicate (count_list rs c) ev @ received c es"

text \<open>The property names of an object.\<close>

fun keys :: "jsval \<Rightarrow> jstring list" where
  "keys (JObj fs) = map fst fs"
| "keys v = []"

section \<open>Reading outcomes\<close>

definition state_of :: "outcome \<Rightarrow> server" where
  "state_of r = fst r"

definition emits_of :: "outcome \<Rightarrow> emission list" where
  "emits_of r = fst (snd r)"

definition error_of :: "outcome \<Rightarrow> js_error option" where
  "error_of r = snd (snd r)"

fun payload_of :: "event \<Rightarrow> jsval" where
  "payload_of (ChatMessage p) = p"
| "payload_of ev = JUndefined"

text \<open>The property names of the payload of each emission.\<close>

definition emitted_keys :: "emission list \<Rightarrow> jstring list list" where
  "emitted_keys es = map (\<lambda>e. keys (payload_of (snd e))) es"

text \<open>Broadcast mode: one emission of a chat message, to every live connection.\<close>

fun is_broadcast :: "server \<Rightarrow> emission list \<Rightarrow> bool" where
  "is_broadcast s [(rs, ChatMessage p)] = (rs = sockets s)"
| "is_broadcast s es = False"

text \<open>
  What the transport and the handlers keep true of the state: no identifier is live
  twice, the registry has one entry for an identifier, every registered name is a
  non-empty string, and every registered identifier is live.
\<close>

definition wf_server :: "server \<Rightarrow> bool" where
  "wf_server s =
     (distinct (sockets s) \<and> distinct (map fst (users s))
      \<and> list_all (\<lambda>e. snd e \<noteq> [] \<and> fst e \<in> set (sockets s)) (users s))"


text \<open>The number a string of decimal digits denotes.\<close>

definition decimal_value :: "jstring \<Rightarrow> nat" where
  "decimal_value ds = foldl (\<lambda>a d. 10 * a + (unat d - 48)) 0 ds"

text \<open>The six fields of the message envelope, as the specification lists them.\<close>

definition envelope_fields :: "jstring list" where
  "envelope_fields = map lit [''username'', ''message'', ''type'', ''senderId'',
                              ''recipientId'', ''timestamp'']"

section \<open>Trimming and name assignment\<close>

lemma dropWhile_all_iff: "(\<forall>x\<in>set (dropWhile P xs). P x) \<longleftrightarrow> (\<forall>x\<in>set xs. P x)"
proof
  assume a: "\<forall>x\<in>set (dropWhile P xs). P x"
  have "dropWhile P xs = []"
  proof (rule ccontr)
    assume n: "dropWhile P xs \<noteq> []"
    hence "\<not> P (hd (dropWhile P xs))" by (rule hd_dropWhile)
    moreover have "hd (dropWhile P xs) \<in> set (dropWhile P xs)" using n by simp
    ultimately show False using a by blast
  qed
  thus "\<forall>x\<in>set xs. P x" by (simp add: dropWhile_eq_Nil_conv)
next
  assume "\<forall>x\<in>set xs. P x"
  thus "\<forall>x\<in>set (dropWhile P xs). P x" by (blast dest: set_dropWhileD)
qed

lemma trim_empty_iff: "trim s = [] \<longleftrightarrow> list_all is_ws s"
proof -
  have "trim s = [] \<longleftrightarrow> (\<forall>x\<in>set (dropWhile is_ws s). is_ws x)"
    by (simp add: trim_def dropWhile_eq_Nil_conv)
  thus ?thesis by (simp add: dropWhile_all_iff list_all_iff)
qed



lemma Anonymous_nonempty: "Anonymous \<noteq> []"
  by (simp add: Anonymous_def lit_def)

lemma assign_name_string:
  "assign_name (JStr raw) = Inr (if list_all is_ws raw then Anonymous else trim raw)"
proof (cases "raw = []")
  case True
  thus ?thesis by (simp add: assign_name_def)
next
  case False
  thus ?thesis by (simp add: assign_name_def trim_empty_iff)
qed

lemma assign_name_falsy: "\<not> truthy v \<Longrightarrow> assign_name v = Inr Anonymous"
  by (simp add: assign_name_def)

lemma assign_name_throws: "truthy v \<Longrightarrow> \<not> is_string v \<Longrightarrow> assign_name v = Inl TypeError"
  by (cases v) (simp_all add: assign_name_def)

lemma assign_name_nonempty: "assign_name v = Inr a \<Longrightarrow> a \<noteq> []"
  by (cases v) (auto simp: assign_name_def Anonymous_nonempty trim_empty_iff split: if_splits)

section \<open>Emissions and routing\<close>


lemma get_prop_chat_payload_username:
  "get_prop (chat_payload u m t sid r now) (lit ''username'') = Inr u"
  by (simp add: chat_payload_def lit_def)

lemma count_list_distinct:
  "distinct xs \<Longrightarrow> count_list xs c = (if c \<in> set xs then 1 else 0)"
  by (induction xs) auto

lemma filter_eq_distinct:
  "distinct xs \<Longrightarrow> filter (\<lambda>c. c = r) xs = (if r \<in> set xs then [r] else [])"
  by (induction xs) auto

lemma get_prop_chat_payload:
  "get_prop (chat_payload u m t sid r now) (lit ''message'') = Inr m"
  "get_prop (chat_payload u m t sid r now) (lit ''type'') = Inr t"
  "get_prop (chat_payload u m t sid r now) (lit ''senderId'') = Inr (JStr sid)"
  "get_prop (chat_payload u m t sid r now) (lit ''recipientId'') = Inr r"
  "get_prop (chat_payload u m t sid r now) (lit ''timestamp'') = Inr (JNum (of_nat now))"
  by (simp_all add: chat_payload_def lit_def)

lemma users_get_wf:
  assumes "wf_server s"
  shows "js_or (users_get s sid) (JStr Anonymous) =
           JStr (case map_of (users s) sid of None \<Rightarrow> Anonymous | Some n \<Rightarrow> n)"
proof (cases "map_of (users s) sid")
  case None
  thus ?thesis by (simp add: users_get_def js_or_def)
next
  case (Some n)
  hence "(sid, n) \<in> set (users s)" by (rule map_of_SomeD)
  hence "n \<noteq> []" using assms by (auto simp: wf_server_def list_all_iff)
  thus ?thesis using Some by (simp add: users_get_def js_or_def)
qed

lemma get_prop_readable:
  "get_prop data k = Inr v \<Longrightarrow> \<exists>w. get_prop data k' = Inr w"
  by (cases data) simp_all

lemma truthy_js_or_null: "truthy (js_or rid JNull) = truthy rid"
  by (simp add: js_or_def)

lemma sockets_get_iff: "sockets_get s v \<longleftrightarrow> (\<exists>r. v = JStr r \<and> r \<in> set (sockets s))"
  by (cases v) (simp_all add: sockets_get_def)

lemma chat_message_structured:
  assumes "\<not> is_string data" and "get_prop data (lit ''recipientId'') = Inr rid"
  shows "\<exists>p. chat_message s sid now data =
           (if truthy rid \<and> sockets_get s rid
            then (s, [io_to_emit s rid (ChatMessage p), socket_emit sid (ChatMessage p)], None)
            else (s, [io_emit s (ChatMessage p)], None))"
proof -
  obtain msg where m: "get_prop data (lit ''message'') = Inr msg"
    using get_prop_readable[OF assms(2)] by blast
  obtain ty where t: "get_prop data (lit ''type'') = Inr ty"
    using get_prop_readable[OF assms(2)] by blast
  have j: "truthy rid \<Longrightarrow> js_or rid JNull = rid" by (simp add: js_or_def)
  show ?thesis
    using assms m t j
    by (auto simp: chat_message_def Let_def truthy_js_or_null)
qed

lemma upload_handler_stored:
  assumes "req_body req = Some b" and "req_file req = Some f"
  shows "upload_handler s now req =
           (if truthy (field (recipientId b)) \<and> sockets_get s (field (recipientId b))
            then io_to_emit s (field (recipientId b)) (ChatMessage (upload_payload s now f b)) #
                 (if truthy (field (senderId b))
                  then [io_to_emit s (field (senderId b)) (ChatMessage (upload_payload s now f b))]
                  else [])
            else [io_emit s (ChatMessage (upload_payload s now f b))],
            (200, OkBody (lit ''/uploads/'' @ filename f)))"
  using assms by (simp add: upload_handler_def upload_try_def Let_def)

lemma is_broadcast_received:
  assumes "is_broadcast s es" and "distinct (sockets s)"
  shows "\<exists>p. \<forall>c\<in>set (sockets s). received c es = [ChatMessage p]"
proof -
  from assms(1) obtain p where "es = [(sockets s, ChatMessage p)]"
    by (induction s es rule: is_broadcast.induct) simp_all
  thus ?thesis using assms(2) by (simp add: count_list_distinct)
qed

lemma keys_chat_payload: "keys (chat_payload u m t sid r now) = envelope_fields"
  by (simp add: chat_payload_def envelope_fields_def)

lemma keys_upload_payload:
  "keys (upload_payload s now f b) =
     map lit [''username'', ''message'', ''type'', ''originalName'', ''senderId'',
              ''recipientId'', ''timestamp'']"
  by (simp add: upload_payload_def)

lemma chat_message_cases:
  "(\<exists>p rs. chat_message s sid now data = (s, [(rs, ChatMessage p)], None)
            \<and> keys p = envelope_fields)
   \<or> (\<exists>p rs rs'. chat_message s sid now data = (s, [(rs, ChatMessage p), (rs', ChatMessage p)], None)
            \<and> keys p = envelope_fields)
   \<or> chat_message s sid now data = (s, [], Some TypeError)"
proof (cases "is_string data")
  case True
  thus ?thesis by (simp add: chat_message_def io_emit_def keys_chat_payload)
next
  case False
  show ?thesis
  proof (cases "get_prop data (lit ''message'')")
    case (Inl e)
    thus ?thesis using False by (cases e) (simp add: chat_message_def)
  next
    case (Inr msg)
    then obtain rid where r: "get_prop data (lit ''recipientId'') = Inr rid"
      using get_prop_readable by blast
    then obtain ty where t: "get_prop data (lit ''type'') = Inr ty"
      using get_prop_readable by blast
    show ?thesis using False Inr r t
      by (simp add: chat_message_def Let_def io_emit_def io_to_emit_def socket_emit_def
          keys_chat_payload split: jsval.splits)
  qed
qed

section \<open>The registry through events\<close>


lemma delete_update_fresh:
  "k \<notin> fst ` set al \<Longrightarrow> AList.delete k (AList.update k v al) = al"
  by (simp add: delete_update_same)

lemma update_fresh:
  "k \<notin> fst ` set al \<Longrightarrow> AList.update k v al = al @ [(k, v)]"
  by (induction al) auto

lemma filter_neq_fresh:
  "x \<notin> set xs \<Longrightarrow> filter (\<lambda>c. c \<noteq> x) xs = xs"
  by (induction xs) auto

lemma map_of_fresh: "k \<notin> fst ` set al \<Longrightarrow> map_of al k = None"
  by (simp add: map_of_eq_None_iff)

lemma set_update_subset: "set (AList.update k v al) \<subseteq> insert (k, v) (set al)"
  by (induction al) auto

lemma wf_server_init: "wf_server init"
  by (simp add: wf_server_def init_def)

lemma wf_server_step:
  assumes "wf_server s"
  shows "wf_server (state_of (step s e))"
proof (cases e)
  case (Connection c)
  thus ?thesis using assms
    by (auto simp: state_of_def connection_handler_def wf_server_def list_all_iff)
next
  case (SetUsername c v)
  show ?thesis
  proof (cases "c \<in> set (sockets s)")
    case False
    thus ?thesis using SetUsername assms by (simp add: state_of_def)
  next
    case True
    show ?thesis
    proof (cases "assign_name v")
      case (Inl err)
      thus ?thesis using SetUsername assms by (simp add: state_of_def set_username_def)
    next
      case (Inr a)
      hence ne: "a \<noteq> []" by (rule assign_name_nonempty)
      have sub: "set (AList.update c a (users s)) \<subseteq> insert (c, a) (set (users s))"
        by (rule set_update_subset)
      have "wf_server (s\<lparr>users := AList.update c a (users s)\<rparr>)"
        using assms True ne sub
        by (auto simp: wf_server_def list_all_iff distinct_update)
      thus ?thesis using SetUsername True Inr
        by (simp add: state_of_def set_username_def Let_def)
    qed
  qed
next
  case (ChatMsg c now data)
  have "state_of (chat_message s c now data) = s"
    using chat_message_cases[of s c now data] by (auto simp: state_of_def)
  thus ?thesis using ChatMsg assms by (simp add: state_of_def)
next
  case (Disconnect c)
  show ?thesis
  proof (cases "c \<in> set (sockets s)")
    case False
    thus ?thesis using Disconnect assms by (simp add: state_of_def)
  next
    case True
    have k: "c \<notin> fst ` set (AList.delete c (users s))" by (rule delete_notin_dom)
    have sub: "set (AList.delete c (users s)) \<subseteq> set (users s)"
      by (auto simp: AList.delete_eq)
    have "wf_server (s\<lparr>sockets := removeAll c (sockets s), users := AList.delete c (users s)\<rparr>)"
      using assms k sub
      by (fastforce simp: wf_server_def list_all_iff distinct_removeAll distinct_delete)
    thus ?thesis using Disconnect True
      by (simp add: state_of_def disconnect_handler_def Let_def)
  qed
next
  case (Upload now req)
  thus ?thesis using assms by (simp add: state_of_def)
qed

lemma wf_server_run: "wf_server s \<Longrightarrow> wf_server (state_of (run s es))"
proof (induction es arbitrary: s)
  case Nil
  thus ?case by (simp add: state_of_def)
next
  case (Cons e es)
  obtain s' out r where st: "step s e = (s', out, r)" by (cases "step s e") auto
  have w: "wf_server s'" using wf_server_step[OF Cons.prems, of e] st by (simp add: state_of_def)
  show ?case
  proof (cases r)
    case None
    obtain s'' out' r' where rn: "run s' es = (s'', out', r')" by (cases "run s' es") auto
    have "wf_server s''" using Cons.IH[OF w] rn by (simp add: state_of_def)
    thus ?thesis using st None rn by (simp add: state_of_def)
  next
    case (Some err)
    thus ?thesis using st w by (simp add: state_of_def)
  qed
qed




lemma get_prop_readable_iff:
  "(\<exists>v. get_prop data k = Inr v) = (data \<noteq> JNull \<and> data \<noteq> JUndefined)"
  by (cases data) simp_all


section \<open>Stored filenames\<close>

lemma unat_digit: "d < 10 \<Longrightarrow> unat (digit d) = 48 + d"
  unfolding digit_def by (subst unat_of_nat) simp

lemma decimal_value_snoc:
  "decimal_value (ds @ [d]) = 10 * decimal_value ds + (unat d - 48)"
  by (simp add: decimal_value_def)

lemma decimal_value_digits: "decimal_value (digits n) = n"
proof (induction n rule: digits.induct)
  case (1 n)
  show ?case
  proof (cases "n < 10")
    case True
    thus ?thesis by (simp add: digits.simps[of n] decimal_value_def unat_digit)
  next
    case False
    hence "decimal_value (digits (n div 10)) = n div 10" using "1.IH" by simp
    moreover have "n mod 10 < 10" by simp
    ultimately show ?thesis using False
      by (simp add: digits.simps[of n] decimal_value_snoc unat_digit)
  qed
qed

lemma replace_negated_single:
  "replace_negated items [r] s = map (\<lambda>c. if matches_negated items c then r else c) s"
  by (induction s) (simp_all add: replace_negated_def)

lemma matches_negated_name_class:
  "matches_negated name_class c =
     (\<not> ((cu CHR ''a'' \<le> c \<and> c \<le> cu CHR ''z'') \<or> (cu CHR ''A'' \<le> c \<and> c \<le> cu CHR ''Z'')
         \<or> (cu CHR ''0'' \<le> c \<and> c \<le> cu CHR ''9'')
         \<or> c = cu CHR ''.'' \<or> c = cu CHR ''_'' \<or> c = cu CHR ''-''))"
  by (simp add: matches_negated_def name_class_def)

lemma safeName_map:
  "safeName name =
     map (\<lambda>c. if (cu CHR ''a'' \<le> c \<and> c \<le> cu CHR ''z'') \<or> (cu CHR ''A'' \<le> c \<and> c \<le> cu CHR ''Z'')
                 \<or> (cu CHR ''0'' \<le> c \<and> c \<le> cu CHR ''9'')
                 \<or> c = cu CHR ''.'' \<or> c = cu CHR ''_'' \<or> c = cu CHR ''-''
               then c else cu CHR ''_'') name"
proof -
  have "lit ''_'' = [cu CHR ''_'']" by (simp add: lit_def cu_def)
  thus ?thesis
    by (simp add: safeName_def replace_negated_single matches_negated_name_class if_distrib
        cong: if_cong)
qed

section \<open>The claims\<close>




text \<open>
  C2, as the code has it. In private mode the envelope is emitted to the recipient's
  connection and then to the sender: on the live channel always, to the sending socket; on
  the upload route whenever the \<open>senderId\<close> field is a non-empty string, to the live
  connection of that identifier, if there is one. Neither path compares the sender with the
  recipient, so a sender who is the recipient receives the envelope twice. A connection
  that is neither the recipient nor the sender receives nothing.
\<close>

theorem private_delivery:
  "(distinct (sockets s) \<and> \<not> is_string data
      \<and> get_prop data (lit ''recipientId'') = Inr (JStr r) \<and> r \<noteq> [] \<and> r \<in> set (sockets s) \<longrightarrow>
      (\<exists>p. emits_of (chat_message s sid now data) = [([r], ChatMessage p), ([sid], ChatMessage p)]
         \<and> received r (emits_of (chat_message s sid now data))
             = (if sid = r then [ChatMessage p, ChatMessage p] else [ChatMessage p])
         \<and> received sid (emits_of (chat_message s sid now data))
             = (if sid = r then [ChatMessage p, ChatMessage p] else [ChatMessage p])
         \<and> (\<forall>c. c \<noteq> r \<and> c \<noteq> sid \<longrightarrow> received c (emits_of (chat_message s sid now data)) = [])))
   \<and> (distinct (sockets s) \<and> req_body req = Some b \<and> req_file req = Some f
      \<and> recipientId b = Some r \<and> r \<noteq> [] \<and> r \<in> set (sockets s) \<longrightarrow>
      (\<exists>p. fst (upload_handler s now req) =
              ([r], ChatMessage p) #
              (case senderId b of
                 None \<Rightarrow> []
               | Some sd \<Rightarrow> if sd = [] then []
                            else [(if sd \<in> set (sockets s) then [sd] else [], ChatMessage p)])
         \<and> received r (fst (upload_handler s now req))
             = (if senderId b = Some r then [ChatMessage p, ChatMessage p] else [ChatMessage p])
         \<and> (\<forall>c. c \<noteq> r \<and> senderId b \<noteq> Some c \<longrightarrow> received c (fst (upload_handler s now req)) = [])))"
proof -
  have 1: "\<exists>p. emits_of (chat_message s sid now data) = [([r], ChatMessage p), ([sid], ChatMessage p)]
         \<and> received r (emits_of (chat_message s sid now data))
             = (if sid = r then [ChatMessage p, ChatMessage p] else [ChatMessage p])
         \<and> received sid (emits_of (chat_message s sid now data))
             = (if sid = r then [ChatMessage p, ChatMessage p] else [ChatMessage p])
         \<and> (\<forall>c. c \<noteq> r \<and> c \<noteq> sid \<longrightarrow> received c (emits_of (chat_message s sid now data)) = [])"
    if d: "distinct (sockets s)" and ns: "\<not> is_string data"
      and g: "get_prop data (lit ''recipientId'') = Inr (JStr r)"
      and r: "r \<noteq> []" "r \<in> set (sockets s)"
  proof -
    obtain p where p: "chat_message s sid now data =
           (if truthy (JStr r) \<and> sockets_get s (JStr r)
            then (s, [io_to_emit s (JStr r) (ChatMessage p), socket_emit sid (ChatMessage p)], None)
            else (s, [io_emit s (ChatMessage p)], None))"
      using chat_message_structured[OF ns g] by blast
    have c: "(truthy (JStr r) \<and> sockets_get s (JStr r)) = True"
      using r by (simp add: sockets_get_def)
    have e: "emits_of (chat_message s sid now data) = [([r], ChatMessage p), ([sid], ChatMessage p)]"
      unfolding p c using d r
      by (simp add: emits_of_def io_to_emit_def socket_emit_def filter_eq_distinct)
    show ?thesis unfolding e by auto
  qed
  have 2: "\<exists>p. fst (upload_handler s now req) =
              ([r], ChatMessage p) #
              (case senderId b of
                 None \<Rightarrow> []
               | Some sd \<Rightarrow> if sd = [] then []
                            else [(if sd \<in> set (sockets s) then [sd] else [], ChatMessage p)])
         \<and> received r (fst (upload_handler s now req))
             = (if senderId b = Some r then [ChatMessage p, ChatMessage p] else [ChatMessage p])
         \<and> (\<forall>c. c \<noteq> r \<and> senderId b \<noteq> Some c \<longrightarrow> received c (fst (upload_handler s now req)) = [])"
    if d: "distinct (sockets s)" and q: "req_body req = Some b" "req_file req = Some f"
      and rb: "recipientId b = Some r" and r: "r \<noteq> []" "r \<in> set (sockets s)"
  proof -
    let ?p = "upload_payload s now f b"
    have c: "(truthy (field (recipientId b)) \<and> sockets_get s (field (recipientId b))) = True"
      using rb r by (simp add: sockets_get_def)
    have e: "fst (upload_handler s now req) =
              ([r], ChatMessage ?p) #
              (case senderId b of
                 None \<Rightarrow> []
               | Some sd \<Rightarrow> if sd = [] then []
                            else [(if sd \<in> set (sockets s) then [sd] else [], ChatMessage ?p)])"
      unfolding upload_handler_stored[OF q] c using d r rb
      by (simp add: io_to_emit_def filter_eq_distinct split: option.splits)
    have "received r (fst (upload_handler s now req))
             = (if senderId b = Some r then [ChatMessage ?p, ChatMessage ?p] else [ChatMessage ?p])"
      unfolding e using r by (auto split: option.splits)
    moreover have "\<forall>c. c \<noteq> r \<and> senderId b \<noteq> Some c \<longrightarrow> received c (fst (upload_handler s now req)) = []"
      unfolding e by (auto split: option.splits)
    ultimately show ?thesis using e by blast
  qed
  from 1 2 show ?thesis by blast
qed

theorem private_delivery_witness:
  "received (lit ''C'')
      (emits_of (chat_message \<lparr>sockets = [lit ''A'', lit ''B'', lit ''C''], users = []\<rparr> (lit ''A'') 5
         (JObj [(lit ''message'', JStr (lit ''secret'')),
                (lit ''recipientId'', JStr (lit ''B''))]))) = []
   \<and> length (received (lit ''B'')
      (emits_of (chat_message \<lparr>sockets = [lit ''A'', lit ''B'', lit ''C''], users = []\<rparr> (lit ''A'') 5
         (JObj [(lit ''message'', JStr (lit ''secret'')),
                (lit ''recipientId'', JStr (lit ''B''))])))) = 1
   \<and> length (received (lit ''A'')
      (emits_of (chat_message \<lparr>sockets = [lit ''A'', lit ''B'', lit ''C''], users = []\<rparr> (lit ''A'') 5
         (JObj [(lit ''message'', JStr (lit ''secret'')),
                (lit ''recipientId'', JStr (lit ''B''))])))) = 1
   \<and> received (lit ''C'')
      (fst (upload_handler \<lparr>sockets = [lit ''A'', lit ''B'', lit ''C''], users = []\<rparr> 5
        \<lparr>req_file = Some \<lparr>filename = lit ''5-a.txt'', originalname = lit ''a.txt''\<rparr>,
         req_body = Some \<lparr>senderId = Some (lit ''A''), recipientId = Some (lit ''B''),
                          username = None, type_field = None\<rparr>\<rparr>)) = []
   \<and> length (received (lit ''B'')
      (fst (upload_handler \<lparr>sockets = [lit ''A'', lit ''B'', lit ''C''], users = []\<rparr> 5
        \<lparr>req_file = Some \<lparr>filename = lit ''5-a.txt'', originalname = lit ''a.txt''\<rparr>,
         req_body = Some \<lparr>senderId = Some (lit ''A''), recipientId = Some (lit ''B''),
                          username = None, type_field = None\<rparr>\<rparr>))) = 1"
proof -
  let ?s = "\<lparr>sockets = [lit ''A'', lit ''B'', lit ''C''], users = []\<rparr>"
  let ?d = "JObj [(lit ''message'', JStr (lit ''secret'')), (lit ''recipientId'', JStr (lit ''B''))]"
  let ?f = "\<lparr>filename = lit ''5-a.txt'', originalname = lit ''a.txt''\<rparr>"
  let ?b = "\<lparr>senderId = Some (lit ''A''), recipientId = Some (lit ''B''),
             username = None, type_field = None\<rparr>"
  let ?r = "\<lparr>req_file = Some ?f, req_body = Some ?b\<rparr>"
  note t = private_delivery[where s = ?s and data = ?d and r = "lit ''B''" and sid = "lit ''A''"
      and now = 5 and req = ?r and b = ?b and f = ?f]
  have h1: "distinct (sockets ?s) \<and> \<not> is_string ?d
      \<and> get_prop ?d (lit ''recipientId'') = Inr (JStr (lit ''B'')) \<and> lit ''B'' \<noteq> []
      \<and> lit ''B'' \<in> set (sockets ?s)"
    by (simp add: lit_def)
  have h2: "distinct (sockets ?s) \<and> req_body ?r = Some ?b \<and> req_file ?r = Some ?f
      \<and> recipientId ?b = Some (lit ''B'') \<and> lit ''B'' \<noteq> [] \<and> lit ''B'' \<in> set (sockets ?s)"
    by (simp add: lit_def)
  have ne: "lit ''A'' \<noteq> lit ''B''" "lit ''C'' \<noteq> lit ''B''" "lit ''C'' \<noteq> lit ''A''"
    by (simp_all add: lit_def)
  from t h1 obtain p where p:
    "received (lit ''B'') (emits_of (chat_message ?s (lit ''A'') 5 ?d))
       = (if lit ''A'' = lit ''B'' then [ChatMessage p, ChatMessage p] else [ChatMessage p])"
    "received (lit ''A'') (emits_of (chat_message ?s (lit ''A'') 5 ?d))
       = (if lit ''A'' = lit ''B'' then [ChatMessage p, ChatMessage p] else [ChatMessage p])"
    "\<forall>c. c \<noteq> lit ''B'' \<and> c \<noteq> lit ''A'' \<longrightarrow> received c (emits_of (chat_message ?s (lit ''A'') 5 ?d)) = []"
    by blast
  from t h2 obtain q where q:
    "received (lit ''B'') (fst (upload_handler ?s 5 ?r))
       = (if senderId ?b = Some (lit ''B'') then [ChatMessage q, ChatMessage q] else [ChatMessage q])"
    "\<forall>c. c \<noteq> lit ''B'' \<and> senderId ?b \<noteq> Some c \<longrightarrow> received c (fst (upload_handler ?s 5 ?r)) = []"
    by blast
  have c1: "received (lit ''C'') (emits_of (chat_message ?s (lit ''A'') 5 ?d)) = []"
    using p(3) ne by blast
  have c2: "length (received (lit ''B'') (emits_of (chat_message ?s (lit ''A'') 5 ?d))) = 1"
    using p(1) ne by simp
  have c3: "length (received (lit ''A'') (emits_of (chat_message ?s (lit ''A'') 5 ?d))) = 1"
    using p(2) ne by simp
  have "senderId ?b \<noteq> Some (lit ''C'')" using ne by simp
  hence c4: "received (lit ''C'') (fst (upload_handler ?s 5 ?r)) = []"
    using q(2) ne by blast
  have "senderId ?b \<noteq> Some (lit ''B'')" using ne by simp
  hence c5: "length (received (lit ''B'') (fst (upload_handler ?s 5 ?r))) = 1"
    using q(1) by simp
  from c1 c2 c3 c4 c5 show ?thesis by blast
qed

text \<open>
  C2 as stated fails: connection \<open>A\<close> sends itself a private message and receives the
  envelope twice, not once.
\<close>

theorem self_addressed_private_counterexample:
  "length (received (lit ''A'')
      (emits_of (chat_message \<lparr>sockets = [lit ''A'', lit ''B''], users = []\<rparr> (lit ''A'') 5
         (JObj [(lit ''message'', JStr (lit ''secret'')),
                (lit ''recipientId'', JStr (lit ''A''))])))) = 2"
  by (simp add: chat_message_def emits_of_def lit_def js_or_def users_get_def sockets_get_def
      io_to_emit_def socket_emit_def io_emit_def chat_payload_def Anonymous_def Let_def)

text \<open>
  C3, as the code has it. For a connection that is new to the server, the sequence
  connect, name-set, disconnect produces, in order: the \<open>your id\<close> event to the client,
  one user list grown by one entry (to everyone, the client included), one join
  notification (to the others), one user list shrunk by one entry, and one leave
  notification; afterwards the state is the one before, so the registry does not contain
  the identifier. The sequence connect, disconnect with no name-set in between produces
  the \<open>your id\<close> event and one user list, unchanged, and neither a join nor a leave
  notification: the registry has no name to announce.
\<close>

theorem presence_round_trip:
  assumes "sid \<notin> set (sockets s)" and "sid \<notin> fst ` set (users s)"
    and "assign_name v = Inr a"
  shows "run s [Connection sid, SetUsername sid v, Disconnect sid] =
           (s, [([sid], YourId sid),
                (sockets s @ [sid], UserList (users s @ [(sid, a)])),
                (sockets s, UserNotification (a @ lit '' joined the chat'')),
                (sockets s, UserList (users s)),
                (sockets s, UserNotification (a @ lit '' left the chat''))], None)
         \<and> run s [Connection sid, Disconnect sid] =
           (s, [([sid], YourId sid), (sockets s, UserList (users s))], None)"
proof -
  let ?s1 = "s\<lparr>sockets := sockets s @ [sid]\<rparr>"
  let ?s2 = "?s1\<lparr>users := users s @ [(sid, a)]\<rparr>"
  have ne: "a \<noteq> []" using assms(3) by (rule assign_name_nonempty)
  have st1: "step s (Connection sid) = (?s1, [([sid], YourId sid)], None)"
    using assms(1) by (simp add: connection_handler_def socket_emit_def)
  have st2: "step ?s1 (SetUsername sid v) =
      (?s2, [(sockets s @ [sid], UserList (users s @ [(sid, a)])),
             (sockets s, UserNotification (a @ lit '' joined the chat''))], None)"
    using assms
    by (simp add: set_username_def Let_def io_emit_def user_list_def socket_broadcast_emit_def
        update_fresh filter_neq_fresh)
  have "map_of (users s @ [(sid, a)]) sid = Some a"
    using map_of_fresh[OF assms(2)] by (simp add: map_add_def)
  hence ug: "users_get t sid = JStr a" if "users t = users s @ [(sid, a)]" for t
    using that by (simp add: users_get_def)
  have del: "AList.delete sid (users s @ [(sid, a)]) = users s"
    using delete_update_fresh[OF assms(2), of a] update_fresh[OF assms(2), of a] by simp
  have st3: "step ?s2 (Disconnect sid) =
      (s, [(sockets s, UserList (users s)),
           (sockets s, UserNotification (a @ lit '' left the chat''))], None)"
    using assms(1) ne del
    by (simp add: disconnect_handler_def Let_def ug io_emit_def user_list_def)
  have ug1: "users_get t sid = JUndefined" if "users t = users s" for t
    using that map_of_fresh[OF assms(2)] by (simp add: users_get_def)
  have st3': "step ?s1 (Disconnect sid) = (s, [(sockets s, UserList (users s))], None)"
    using assms(1) assms(2)
    by (simp add: disconnect_handler_def Let_def ug1 io_emit_def user_list_def)
  have A: "run s [Connection sid, SetUsername sid v, Disconnect sid] =
           (s, [([sid], YourId sid),
                (sockets s @ [sid], UserList (users s @ [(sid, a)])),
                (sockets s, UserNotification (a @ lit '' joined the chat'')),
                (sockets s, UserList (users s)),
                (sockets s, UserNotification (a @ lit '' left the chat''))], None)"
    by (simp only: run.simps st1 st2 st3 prod.case option.case append.simps)
  have B: "run s [Connection sid, Disconnect sid] =
           (s, [([sid], YourId sid), (sockets s, UserList (users s))], None)"
    by (simp only: run.simps st1 st3' prod.case option.case append.simps)
  from A B show ?thesis by blast
qed

theorem presence_round_trip_witness:
  "run \<lparr>sockets = [lit ''B''], users = [(lit ''B'', lit ''Bob'')]\<rparr>
       [Connection (lit ''A''), SetUsername (lit ''A'') (JStr (lit '' Ann '')), Disconnect (lit ''A'')]
     = (\<lparr>sockets = [lit ''B''], users = [(lit ''B'', lit ''Bob'')]\<rparr>,
        [([lit ''A''], YourId (lit ''A'')),
         ([lit ''B'', lit ''A''], UserList [(lit ''B'', lit ''Bob''), (lit ''A'', lit ''Ann'')]),
         ([lit ''B''], UserNotification (lit ''Ann joined the chat'')),
         ([lit ''B''], UserList [(lit ''B'', lit ''Bob'')]),
         ([lit ''B''], UserNotification (lit ''Ann left the chat''))], None)
   \<and> run \<lparr>sockets = [lit ''B''], users = [(lit ''B'', lit ''Bob'')]\<rparr>
       [Connection (lit ''A''), Disconnect (lit ''A'')]
     = (\<lparr>sockets = [lit ''B''], users = [(lit ''B'', lit ''Bob'')]\<rparr>,
        [([lit ''A''], YourId (lit ''A'')),
         ([lit ''B''], UserList [(lit ''B'', lit ''Bob'')])], None)"
proof -
  let ?s = "\<lparr>sockets = [lit ''B''], users = [(lit ''B'', lit ''Bob'')]\<rparr>"
  have h1: "lit ''A'' \<notin> set (sockets ?s)" by (simp add: lit_def)
  have h2: "lit ''A'' \<notin> fst ` set (users ?s)" by (simp add: lit_def)
  have h3: "assign_name (JStr (lit '' Ann '')) = Inr (lit ''Ann'')"
    by (simp add: assign_name_string trim_def lit_def is_ws_def)
  show ?thesis
    using presence_round_trip[OF h1 h2 h3] by (simp add: lit_def)
qed

text \<open>
  C3 as stated fails: the first client connects and disconnects without setting a name,
  and the server emits no join notification and no leave notification.
\<close>

theorem connect_disconnect_counterexample:
  "emits_of (run init [Connection (lit ''A''), Disconnect (lit ''A'')])
     = [([lit ''A''], YourId (lit ''A'')), ([], UserList [])]"
  by (simp add: emits_of_def init_def connection_handler_def socket_emit_def disconnect_handler_def
      Let_def users_get_def io_emit_def user_list_def)

text \<open>
  C4, as the code has it. A message whose properties can be read (on the live channel
  every payload but \<open>null\<close> and \<open>undefined\<close>, on the upload route every request with
  a parsed body and a file) and whose \<open>recipientId\<close> is absent, \<open>null\<close>, otherwise falsy, or not the
  identifier of a live connection is broadcast: there is one emission, to every live
  connection, and each of them receives the envelope once. So a delivery that is not a
  broadcast happens only when \<open>recipientId\<close> is present and a live connection has that
  identifier.
\<close>

theorem broadcast_unless_live_recipient:
  "(get_prop data (lit ''recipientId'') = Inr rid
      \<and> \<not> (truthy rid \<and> (\<exists>r. rid = JStr r \<and> r \<in> set (sockets s))) \<longrightarrow>
      is_broadcast s (emits_of (chat_message s sid now data)))
   \<and> (data \<noteq> JNull \<and> data \<noteq> JUndefined \<longrightarrow>
        (\<exists>v. get_prop data (lit ''recipientId'') = Inr v))
   \<and> (req_body req = Some b \<and> req_file req = Some f
      \<and> \<not> (truthy (field (recipientId b)) \<and> (\<exists>r. recipientId b = Some r \<and> r \<in> set (sockets s))) \<longrightarrow>
      is_broadcast s (fst (upload_handler s now req)))
   \<and> (distinct (sockets s) \<longrightarrow>
        (\<forall>es. is_broadcast s es \<longrightarrow>
           (\<exists>p. \<forall>c\<in>set (sockets s). received c es = [ChatMessage p])))"
proof -
  have 1: "is_broadcast s (emits_of (chat_message s sid now data))"
    if a: "get_prop data (lit ''recipientId'') = Inr rid"
      and n: "\<not> (truthy rid \<and> (\<exists>r. rid = JStr r \<and> r \<in> set (sockets s)))"
  proof (cases "is_string data")
    case True
    thus ?thesis by (simp add: chat_message_def emits_of_def io_emit_def)
  next
    case False
    then obtain p where p: "chat_message s sid now data =
           (if truthy rid \<and> sockets_get s rid
            then (s, [io_to_emit s rid (ChatMessage p), socket_emit sid (ChatMessage p)], None)
            else (s, [io_emit s (ChatMessage p)], None))"
      using chat_message_structured[of data rid s sid now] a by blast
    from n have "(truthy rid \<and> sockets_get s rid) = False"
      by (simp add: sockets_get_iff)
    thus ?thesis unfolding p
      by (simp only: if_False emits_of_def fst_conv snd_conv io_emit_def is_broadcast.simps)
  qed
  have 2: "is_broadcast s (fst (upload_handler s now req))"
    if a: "req_body req = Some b" "req_file req = Some f"
      and n: "\<not> (truthy (field (recipientId b)) \<and> (\<exists>r. recipientId b = Some r \<and> r \<in> set (sockets s)))"
  proof -
    have e: "sockets_get s (field (recipientId b)) = (\<exists>r. recipientId b = Some r \<and> r \<in> set (sockets s))"
      by (cases "recipientId b") (simp_all add: sockets_get_def)
    from n have "(truthy (field (recipientId b)) \<and> sockets_get s (field (recipientId b))) = False"
      by (simp add: e)
    thus ?thesis using a by (simp only: upload_handler_stored if_False fst_conv io_emit_def is_broadcast.simps)
  qed
  have 3: "distinct (sockets s) \<longrightarrow>
        (\<forall>es. is_broadcast s es \<longrightarrow>
           (\<exists>p. \<forall>c\<in>set (sockets s). received c es = [ChatMessage p]))"
    using is_broadcast_received by blast
  have 4: "data \<noteq> JNull \<and> data \<noteq> JUndefined \<longrightarrow>
        (\<exists>v. get_prop data (lit ''recipientId'') = Inr v)"
    by (simp add: get_prop_readable_iff)
  from 1 2 3 4 show ?thesis by blast
qed

theorem broadcast_unless_live_recipient_witness:
  "is_broadcast \<lparr>sockets = [lit ''A'', lit ''B'', lit ''C''], users = []\<rparr>
     (emits_of (chat_message \<lparr>sockets = [lit ''A'', lit ''B'', lit ''C''], users = []\<rparr> (lit ''A'') 5
        (JObj [(lit ''message'', JStr (lit ''x'')), (lit ''recipientId'', JStr (lit ''ghost-id''))])))
   \<and> is_broadcast \<lparr>sockets = [lit ''A'', lit ''B'', lit ''C''], users = []\<rparr>
     (fst (upload_handler \<lparr>sockets = [lit ''A'', lit ''B'', lit ''C''], users = []\<rparr> 5
        \<lparr>req_file = Some \<lparr>filename = lit ''5-a.txt'', originalname = lit ''a.txt''\<rparr>,
         req_body = Some \<lparr>senderId = Some (lit ''A''), recipientId = None,
                          username = None, type_field = None\<rparr>\<rparr>))
   \<and> (\<exists>p. \<forall>c\<in>set [lit ''A'', lit ''B'', lit ''C''].
         received c (emits_of (chat_message \<lparr>sockets = [lit ''A'', lit ''B'', lit ''C''], users = []\<rparr> (lit ''A'') 5
        (JObj [(lit ''message'', JStr (lit ''x'')), (lit ''recipientId'', JStr (lit ''ghost-id''))])))
           = [ChatMessage p])
   \<and> (\<exists>v. get_prop (JObj [(lit ''message'', JStr (lit ''x'')),
                            (lit ''recipientId'', JStr (lit ''ghost-id''))])
              (lit ''recipientId'') = Inr v)"
proof -
  let ?s = "\<lparr>sockets = [lit ''A'', lit ''B'', lit ''C''], users = []\<rparr>"
  let ?d = "JObj [(lit ''message'', JStr (lit ''x'')), (lit ''recipientId'', JStr (lit ''ghost-id''))]"
  let ?f = "\<lparr>filename = lit ''5-a.txt'', originalname = lit ''a.txt''\<rparr>"
  let ?b = "\<lparr>senderId = Some (lit ''A''), recipientId = None, username = None, type_field = None\<rparr>"
  let ?r = "\<lparr>req_file = Some ?f, req_body = Some ?b\<rparr>"
  note t = broadcast_unless_live_recipient[where s = ?s and data = ?d
      and rid = "JStr (lit ''ghost-id'')" and sid = "lit ''A''" and now = 5
      and req = ?r and b = ?b and f = ?f]
  have h1: "get_prop ?d (lit ''recipientId'') = Inr (JStr (lit ''ghost-id''))"
    by (simp add: lit_def)
  have h2: "\<not> (truthy (JStr (lit ''ghost-id''))
         \<and> (\<exists>r. JStr (lit ''ghost-id'') = JStr r \<and> r \<in> set (sockets ?s)))"
    by (simp add: lit_def)
  have h3: "req_body ?r = Some ?b \<and> req_file ?r = Some ?f
      \<and> \<not> (truthy (field (recipientId ?b)) \<and> (\<exists>r. recipientId ?b = Some r \<and> r \<in> set (sockets ?s)))"
    by simp
  have h4: "distinct (sockets ?s)" by (simp add: lit_def)
  from t h1 h2 have c1: "is_broadcast ?s (emits_of (chat_message ?s (lit ''A'') 5 ?d))" by blast
  from t h3 have c2: "is_broadcast ?s (fst (upload_handler ?s 5 ?r))" by blast
  from t h4 c1 have "\<exists>p. \<forall>c\<in>set (sockets ?s).
         received c (emits_of (chat_message ?s (lit ''A'') 5 ?d)) = [ChatMessage p]" by blast
  hence c3: "\<exists>p. \<forall>c\<in>set [lit ''A'', lit ''B'', lit ''C''].
         received c (emits_of (chat_message ?s (lit ''A'') 5 ?d)) = [ChatMessage p]" by simp
  have "?d \<noteq> JNull \<and> ?d \<noteq> JUndefined" by simp
  with t have c4: "\<exists>v. get_prop ?d (lit ''recipientId'') = Inr v" by blast
  from c1 c2 c3 c4 show ?thesis by blast
qed

text \<open>
  C4 as stated fails: a chat-message event whose payload is \<open>null\<close> has no
  \<open>recipientId\<close>, and it is not broadcast: reading \<open>data.message\<close> throws, and no
  connection receives anything.
\<close>

theorem null_payload_counterexample:
  "chat_message \<lparr>sockets = [lit ''A'', lit ''B'', lit ''C''], users = []\<rparr> (lit ''A'') 5 JNull
     = (\<lparr>sockets = [lit ''A'', lit ''B'', lit ''C''], users = []\<rparr>, [], Some TypeError)"
  by (simp add: chat_message_def)

text \<open>
  C5. A chat-message event whose payload is a bare string is broadcast: one emission to
  every live connection, so that each of them, the sender included, receives the envelope
  once. Its \<open>message\<close> is the string, its \<open>type\<close> is \<open>text\<close>, its
  \<open>recipientId\<close> is \<open>null\<close>, its \<open>senderId\<close> is the sender's identifier
  and its \<open>username\<close> is the sender's registered name, or \<open>Anonymous\<close> when the
  sender has none. No recipient is looked up, whatever the string is.
\<close>

theorem bare_string_broadcast:
  assumes "wf_server s" and "sid \<in> set (sockets s)"
  shows "\<exists>p. chat_message s sid now (JStr m) = (s, [(sockets s, ChatMessage p)], None)
           \<and> (\<forall>c\<in>set (sockets s). received c [(sockets s, ChatMessage p)] = [ChatMessage p])
           \<and> received sid [(sockets s, ChatMessage p)] = [ChatMessage p]
           \<and> get_prop p (lit ''message'') = Inr (JStr m)
           \<and> get_prop p (lit ''type'') = Inr (JStr (lit ''text''))
           \<and> get_prop p (lit ''recipientId'') = Inr JNull
           \<and> get_prop p (lit ''senderId'') = Inr (JStr sid)
           \<and> get_prop p (lit ''username'') =
               Inr (JStr (case map_of (users s) sid of None \<Rightarrow> Anonymous | Some n \<Rightarrow> n))"
proof -
  let ?u = "JStr (case map_of (users s) sid of None \<Rightarrow> Anonymous | Some n \<Rightarrow> n)"
  let ?p = "chat_payload ?u (JStr m) (JStr (lit ''text'')) sid JNull now"
  have d: "distinct (sockets s)" using assms(1) by (simp add: wf_server_def)
  have 1: "chat_message s sid now (JStr m) = (s, [(sockets s, ChatMessage ?p)], None)"
    by (simp add: chat_message_def users_get_wf[OF assms(1)] io_emit_def)
  have 2: "\<forall>c\<in>set (sockets s). received c [(sockets s, ChatMessage ?p)] = [ChatMessage ?p]"
    using d by (simp add: count_list_distinct)
  have 3: "received sid [(sockets s, ChatMessage ?p)] = [ChatMessage ?p]"
    using d assms(2) by (simp add: count_list_distinct)
  show ?thesis
    using 1 2 3 get_prop_chat_payload[of ?u "JStr m" "JStr (lit ''text'')" sid JNull now]
      get_prop_chat_payload_username[of ?u "JStr m" "JStr (lit ''text'')" sid JNull now]
    by blast
qed

theorem bare_string_broadcast_witness:
  "chat_message \<lparr>sockets = [lit ''A'', lit ''B'', lit ''C''], users = [(lit ''B'', lit ''Bob'')]\<rparr>
       (lit ''A'') 1700 (JStr (lit ''hi''))
     = (\<lparr>sockets = [lit ''A'', lit ''B'', lit ''C''], users = [(lit ''B'', lit ''Bob'')]\<rparr>,
        [([lit ''A'', lit ''B'', lit ''C''],
          ChatMessage (JObj [(lit ''username'', JStr (lit ''Anonymous'')),
                             (lit ''message'', JStr (lit ''hi'')),
                             (lit ''type'', JStr (lit ''text'')),
                             (lit ''senderId'', JStr (lit ''A'')),
                             (lit ''recipientId'', JNull),
                             (lit ''timestamp'', JNum 1700)]))], None)"
proof -
  let ?s = "\<lparr>sockets = [lit ''A'', lit ''B'', lit ''C''], users = [(lit ''B'', lit ''Bob'')]\<rparr>"
  have w: "wf_server ?s" by (simp add: wf_server_def lit_def)
  have l: "lit ''A'' \<in> set (sockets ?s)" by simp
  from bare_string_broadcast[OF w l, of 1700 "lit ''hi''"]
  obtain p where p: "chat_message ?s (lit ''A'') 1700 (JStr (lit ''hi'')) = (?s, [(sockets ?s, ChatMessage p)], None)"
    by blast
  have "chat_message ?s (lit ''A'') 1700 (JStr (lit ''hi'')) = (?s, [(sockets ?s, ChatMessage
     (chat_payload (JStr Anonymous) (JStr (lit ''hi'')) (JStr (lit ''text'')) (lit ''A'') JNull 1700))], None)"
    by (simp add: chat_message_def users_get_def js_or_def io_emit_def lit_def Anonymous_def)
  thus ?thesis using p by (simp add: chat_payload_def Anonymous_def)
qed

text \<open>
  C6, as the code has it. An envelope emitted by the chat-message handler has exactly the
  six fields \<open>username\<close>, \<open>message\<close>, \<open>type\<close>, \<open>senderId\<close>, \<open>recipientId\<close>,
  \<open>timestamp\<close>, and the handler emits one unless it throws. An envelope emitted by the
  upload route has these six and a seventh, \<open>originalName\<close>, after \<open>type\<close>, and the
  route emits one for every request with a parsed body and a file.
\<close>

theorem envelope_keys:
  "(\<forall>ks\<in>set (emitted_keys (emits_of (chat_message s sid now data))). ks = envelope_fields)
   \<and> (error_of (chat_message s sid now data) = None \<longrightarrow>
        emits_of (chat_message s sid now data) \<noteq> [])
   \<and> (\<forall>ks\<in>set (emitted_keys (fst (upload_handler s now req))).
        ks = map lit [''username'', ''message'', ''type'', ''originalName'', ''senderId'',
                      ''recipientId'', ''timestamp''])
   \<and> (req_body req \<noteq> None \<and> req_file req \<noteq> None \<longrightarrow> fst (upload_handler s now req) \<noteq> [])"
proof -
  have 1: "(\<forall>ks\<in>set (emitted_keys (emits_of (chat_message s sid now data))). ks = envelope_fields)
   \<and> (error_of (chat_message s sid now data) = None \<longrightarrow>
        emits_of (chat_message s sid now data) \<noteq> [])"
    using chat_message_cases[of s sid now data]
    by (auto simp: emitted_keys_def emits_of_def error_of_def)
  have 2: "(\<forall>ks\<in>set (emitted_keys (fst (upload_handler s now req))).
        ks = map lit [''username'', ''message'', ''type'', ''originalName'', ''senderId'',
                      ''recipientId'', ''timestamp''])
   \<and> (req_body req \<noteq> None \<and> req_file req \<noteq> None \<longrightarrow> fst (upload_handler s now req) \<noteq> [])"
  proof (cases "req_body req")
    case None
    thus ?thesis by (simp add: upload_handler_def upload_try_def emitted_keys_def)
  next
    case (Some b)
    show ?thesis
    proof (cases "req_file req")
      case None
      thus ?thesis using Some by (simp add: upload_handler_def upload_try_def emitted_keys_def)
    next
      case (Some f)
      show ?thesis
        unfolding upload_handler_stored[OF \<open>req_body req = Some b\<close> Some]
        by (simp add: emitted_keys_def io_emit_def io_to_emit_def keys_upload_payload
            split: jsval.splits)
    qed
  qed
  from 1 2 show ?thesis by blast
qed

theorem envelope_keys_witness:
  "emitted_keys (emits_of (chat_message \<lparr>sockets = [lit ''A'', lit ''B''], users = []\<rparr> (lit ''A'') 5
       (JObj [(lit ''message'', JStr (lit ''x''))]))) = [envelope_fields]
   \<and> error_of (chat_message \<lparr>sockets = [lit ''A'', lit ''B''], users = []\<rparr> (lit ''A'') 5
       (JObj [(lit ''message'', JStr (lit ''x''))])) = None
   \<and> fst (upload_handler \<lparr>sockets = [lit ''A'', lit ''B''], users = []\<rparr> 5
        \<lparr>req_file = Some \<lparr>filename = lit ''5-a.txt'', originalname = lit ''a.txt''\<rparr>,
         req_body = Some \<lparr>senderId = None, recipientId = None,
                          username = None, type_field = None\<rparr>\<rparr>) \<noteq> []"
proof -
  let ?s = "\<lparr>sockets = [lit ''A'', lit ''B''], users = []\<rparr>"
  let ?d = "JObj [(lit ''message'', JStr (lit ''x''))]"
  let ?r = "\<lparr>req_file = Some \<lparr>filename = lit ''5-a.txt'', originalname = lit ''a.txt''\<rparr>,
             req_body = Some \<lparr>senderId = None, recipientId = None,
                              username = None, type_field = None\<rparr>\<rparr>"
  note t = envelope_keys[where s = ?s and sid = "lit ''A''" and now = 5 and data = ?d and req = ?r]
  have e: "error_of (chat_message ?s (lit ''A'') 5 ?d) = None"
    by (simp add: chat_message_def error_of_def lit_def Let_def js_or_def)
  have l: "length (emits_of (chat_message ?s (lit ''A'') 5 ?d)) = 1"
    by (simp add: chat_message_def emits_of_def lit_def Let_def js_or_def)
  then obtain x where x: "emits_of (chat_message ?s (lit ''A'') 5 ?d) = [x]"
    by (cases "emits_of (chat_message ?s (lit ''A'') 5 ?d)") auto
  have "\<forall>ks\<in>set (emitted_keys (emits_of (chat_message ?s (lit ''A'') 5 ?d))). ks = envelope_fields"
    using t by blast
  hence c1: "emitted_keys (emits_of (chat_message ?s (lit ''A'') 5 ?d)) = [envelope_fields]"
    unfolding x by (simp add: emitted_keys_def)
  have "req_body ?r \<noteq> None \<and> req_file ?r \<noteq> None" by simp
  with t have c3: "fst (upload_handler ?s 5 ?r) \<noteq> []" by blast
  from c1 e c3 show ?thesis by blast
qed

text \<open>
  C6 as stated fails on the upload route: the envelope of an upload has seven fields.
\<close>

theorem upload_envelope_counterexample:
  "emitted_keys (fst (upload_handler \<lparr>sockets = [lit ''A'', lit ''B''], users = []\<rparr> 5
        \<lparr>req_file = Some \<lparr>filename = lit ''5-a.txt'', originalname = lit ''a.txt''\<rparr>,
         req_body = Some \<lparr>senderId = None, recipientId = None,
                          username = None, type_field = None\<rparr>\<rparr>))
     = [[lit ''username'', lit ''message'', lit ''type'', lit ''originalName'', lit ''senderId'',
         lit ''recipientId'', lit ''timestamp'']]"
  by (simp add: upload_handler_def upload_try_def Let_def emitted_keys_def io_emit_def
      upload_payload_def)






text \<open>
  C9. The stored filename is the decimal digits of the capture time in milliseconds, a
  hyphen, and the original filename with every code unit outside \<open>[A-Za-z0-9._-]\<close>
  replaced by an underscore. The success response of a request whose file was stored
  carries the \<open>fileUrl\<close> \<open>/uploads/\<close> followed by that stored filename, and a file is
  stored only when its size is at most 20 MiB, that is 20 * 2^20 bytes; a larger file
  ends the request before the handler.
\<close>

theorem stored_filename:
  "storage_filename t name =
     digits t @ lit ''-'' @
     map (\<lambda>c. if (cu CHR ''a'' \<le> c \<and> c \<le> cu CHR ''z'') \<or> (cu CHR ''A'' \<le> c \<and> c \<le> cu CHR ''Z'')
                 \<or> (cu CHR ''0'' \<le> c \<and> c \<le> cu CHR ''9'')
                 \<or> c = cu CHR ''.'' \<or> c = cu CHR ''_'' \<or> c = cu CHR ''-''
               then c else cu CHR ''_'') name
   \<and> decimal_value (digits t) = t
   \<and> (post_upload s t now (Multipart (Some p) b) = Inr (es, resp) \<longrightarrow>
        resp = (200, OkBody (lit ''/uploads/'' @ storage_filename t (part_name p)))
        \<and> part_size p \<le> 20 * 2 ^ 20)
   \<and> (20 * 2 ^ 20 < part_size p \<longrightarrow>
        post_upload s t now (Multipart (Some p) b) = Inl LIMIT_FILE_SIZE)
   \<and> fileSize = 20 * 2 ^ 20"
proof -
  have 1: "storage_filename t name =
     digits t @ lit ''-'' @
     map (\<lambda>c. if (cu CHR ''a'' \<le> c \<and> c \<le> cu CHR ''z'') \<or> (cu CHR ''A'' \<le> c \<and> c \<le> cu CHR ''Z'')
                 \<or> (cu CHR ''0'' \<le> c \<and> c \<le> cu CHR ''9'')
                 \<or> c = cu CHR ''.'' \<or> c = cu CHR ''_'' \<or> c = cu CHR ''-''
               then c else cu CHR ''_'') name"
    by (simp only: storage_filename_def safeName_map)
  have fs: "fileSize = 20 * 2 ^ 20" by (simp add: fileSize_def)
  have 3: "post_upload s t now (Multipart (Some p) b) = Inr (es, resp) \<longrightarrow>
        resp = (200, OkBody (lit ''/uploads/'' @ storage_filename t (part_name p)))
        \<and> part_size p \<le> 20 * 2 ^ 20"
  proof
    assume a: "post_upload s t now (Multipart (Some p) b) = Inr (es, resp)"
    have le: "\<not> fileSize \<le> part_size p"
      using a by (auto simp: post_upload_def split: if_splits)
    hence "upload_handler s now
             \<lparr>req_file = Some \<lparr>filename = storage_filename t (part_name p),
                                originalname = part_name p\<rparr>,
              req_body = Some b\<rparr> = (es, resp)"
      using a by (simp add: post_upload_def)
    hence "resp = (200, OkBody (lit ''/uploads/'' @ storage_filename t (part_name p)))"
      by (simp add: upload_handler_stored)
    thus "resp = (200, OkBody (lit ''/uploads/'' @ storage_filename t (part_name p)))
        \<and> part_size p \<le> 20 * 2 ^ 20"
      using le fs by simp
  qed
  have 4: "20 * 2 ^ 20 < part_size p \<longrightarrow>
        post_upload s t now (Multipart (Some p) b) = Inl LIMIT_FILE_SIZE"
    using fs by (simp add: post_upload_def)
  from 1 decimal_value_digits[of t] 3 4 fs show ?thesis by blast
qed

theorem stored_filename_witness:
  "post_upload \<lparr>sockets = [lit ''A''], users = []\<rparr> 42 43
      (Multipart (Some \<lparr>part_name = lit ''my cat!.png'', part_size = 1000\<rparr>)
                 \<lparr>senderId = Some (lit ''A''), recipientId = None, username = None,
                  type_field = None\<rparr>)
     = Inr (fst (upload_handler \<lparr>sockets = [lit ''A''], users = []\<rparr> 43
                 \<lparr>req_file = Some \<lparr>filename = lit ''42-my_cat_.png'',
                                    originalname = lit ''my cat!.png''\<rparr>,
                  req_body = Some \<lparr>senderId = Some (lit ''A''), recipientId = None,
                                   username = None, type_field = None\<rparr>\<rparr>),
            (200, OkBody (lit ''/uploads/42-my_cat_.png'')))
   \<and> post_upload \<lparr>sockets = [lit ''A''], users = []\<rparr> 42 43
      (Multipart (Some \<lparr>part_name = lit ''big.bin'', part_size = 20971521\<rparr>)
                 \<lparr>senderId = Some (lit ''A''), recipientId = None, username = None,
                  type_field = None\<rparr>) = Inl LIMIT_FILE_SIZE"
proof -
  let ?s = "\<lparr>sockets = [lit ''A''], users = []\<rparr>"
  let ?b = "\<lparr>senderId = Some (lit ''A''), recipientId = None, username = None, type_field = None\<rparr>"
  let ?p = "\<lparr>part_name = lit ''my cat!.png'', part_size = 1000\<rparr>"
  let ?q = "\<lparr>part_name = lit ''big.bin'', part_size = 20971521\<rparr>"
  have d: "digits 42 = lit ''42''"
    by (simp add: digits.simps[of 42] digits.simps[of 4] digit_def lit_def)
  have n: "storage_filename 42 (lit ''my cat!.png'') = lit ''42-my_cat_.png''"
    using stored_filename[where t = 42 and name = "lit ''my cat!.png''"] d
    by (simp add: lit_def cu_def)
  have ok: "\<not> fileSize \<le> part_size ?p" by (simp add: fileSize_def)
  obtain es resp where r: "post_upload ?s 42 43 (Multipart (Some ?p) ?b) = Inr (es, resp)"
    using ok by (simp add: post_upload_def) (metis surj_pair)
  hence "resp = (200, OkBody (lit ''/uploads/'' @ storage_filename 42 (part_name ?p)))"
    using stored_filename[where s = ?s and t = 42 and now = 43 and p = ?p and b = ?b
        and es = es and resp = resp] by blast
  hence resp: "resp = (200, OkBody (lit ''/uploads/42-my_cat_.png''))"
    using n by (simp add: lit_def)
  have "Inr (es, resp) = Inr (upload_handler ?s 43
                 \<lparr>req_file = Some \<lparr>filename = lit ''42-my_cat_.png'',
                                    originalname = lit ''my cat!.png''\<rparr>,
                  req_body = Some ?b\<rparr>)"
    using r ok n by (simp add: post_upload_def)
  hence "es = fst (upload_handler ?s 43
                 \<lparr>req_file = Some \<lparr>filename = lit ''42-my_cat_.png'',
                                    originalname = lit ''my cat!.png''\<rparr>,
                  req_body = Some ?b\<rparr>)"
    by (metis sum.inject(2) fst_conv)
  hence c1: "post_upload ?s 42 43 (Multipart (Some ?p) ?b)
     = Inr (fst (upload_handler ?s 43
                 \<lparr>req_file = Some \<lparr>filename = lit ''42-my_cat_.png'',
                                    originalname = lit ''my cat!.png''\<rparr>,
                  req_body = Some ?b\<rparr>),
            (200, OkBody (lit ''/uploads/42-my_cat_.png'')))"
    using r resp by simp
  have "(20::nat) * 2 ^ 20 < part_size ?q" by simp
  hence c2: "post_upload ?s 42 43 (Multipart (Some ?q) ?b) = Inl LIMIT_FILE_SIZE"
    using stored_filename[where s = ?s and t = 42 and now = 43 and p = ?q and b = ?b] by blast
  from c1 c2 show ?thesis by blast
qed

text \<open>
  C10. A truthy payload of the name-set event that is not a string makes the handler
  throw a TypeError before it assigns a name: the state is the one before, and nothing is
  emitted. The handler ends without an error exactly on the falsy payloads and the
  strings.
\<close>

theorem set_username_non_string:
  "(truthy v \<and> \<not> is_string v \<longrightarrow> set_username s sid v = (s, [], Some TypeError))
   \<and> ((snd (snd (set_username s sid v)) = None) = (\<not> truthy v \<or> is_string v))"
proof (cases "truthy v \<and> \<not> is_string v")
  case True
  hence "assign_name v = Inl TypeError" by (simp add: assign_name_throws)
  thus ?thesis using True by (simp add: set_username_def)
next
  case False
  have "\<exists>a. assign_name v = Inr a"
  proof (cases "truthy v")
    case True
    with False obtain raw where "v = JStr raw" by (cases v) auto
    thus ?thesis by (simp add: assign_name_string)
  next
    case False
    thus ?thesis by (simp add: assign_name_falsy)
  qed
  then obtain a where "assign_name v = Inr a" ..
  thus ?thesis using False by (auto simp: set_username_def Let_def)
qed

theorem set_username_non_string_witness:
  "truthy (JNum 7) \<and> \<not> is_string (JNum 7)
   \<and> set_username \<lparr>sockets = [lit ''A''], users = [(lit ''A'', lit ''Ann'')]\<rparr> (lit ''A'') (JNum 7)
       = (\<lparr>sockets = [lit ''A''], users = [(lit ''A'', lit ''Ann'')]\<rparr>, [], Some TypeError)
   \<and> snd (snd (set_username \<lparr>sockets = [lit ''A''], users = []\<rparr> (lit ''A'')
                 (JObj [(lit ''name'', JStr (lit ''Ann''))]))) \<noteq> None
   \<and> snd (snd (set_username \<lparr>sockets = [lit ''A''], users = []\<rparr> (lit ''A'') JNull)) = None"
  using set_username_non_string[where v = "JNum 7"
      and s = "\<lparr>sockets = [lit ''A''], users = [(lit ''A'', lit ''Ann'')]\<rparr>" and sid = "lit ''A''"]
    set_username_non_string[where v = "JObj [(lit ''name'', JStr (lit ''Ann''))]"
      and s = "\<lparr>sockets = [lit ''A''], users = []\<rparr>" and sid = "lit ''A''"]
    set_username_non_string[where v = JNull
      and s = "\<lparr>sockets = [lit ''A''], users = []\<rparr>" and sid = "lit ''A''"]
  by simp

end
